theory Spec2Isabelle
  imports Main
begin

section \<open>Python values shared by the two source files\<close>

text \<open>
  The development embeds \<^verbatim>\<open>firedrake/slate/slac/kernel_builder.py\<close> and
  \<^verbatim>\<open>firedrake/halo.py\<close>. Python exceptions are values of \<open>error\<close>; an operation
  that can raise after having mutated its object returns the pair of its outcome
  (\<open>Inl\<close> the exception) and of the object as it is left behind. A
  \<open>RuntimeError\<close> carries its first argument and the rendering of the further ones.
\<close>

datatype error =
    AssertionError string
  | NotImplementedError string
  | RuntimeError string "string list"
  | KeyError
  | AttributeError
  | ExternalError string

text \<open>
  \<^verbatim>\<open>"%d" % n\<close> for the non-negative integers the source formats
  (\<^verbatim>\<open>len(temps)\<close> and \<^verbatim>\<open>enumerate\<close> indices): decimal, no leading zero.
  \<open>digit_char\<close> is only applied to a number below ten.
\<close>

definition digit_char :: "nat \<Rightarrow> char" where
  "digit_char d = ''0123456789'' ! d"

fun string_of_nat :: "nat \<Rightarrow> string" where
  "string_of_nat n =
     (if n < 10 then [digit_char n]
      else string_of_nat (n div 10) @ [digit_char (n mod 10)])"

declare string_of_nat.simps [simp del]

section \<open>COFFEE syntax trees\<close>

text \<open>
  \<^verbatim>\<open>coffee.base\<close> is an external library. Only the constructors the builder calls are
  needed: \<^verbatim>\<open>ast.Symbol\<close>, \<^verbatim>\<open>ast.Block\<close>, \<^verbatim>\<open>ast.FunDecl\<close> and \<^verbatim>\<open>ast.Node\<close>;
  \<open>Generated\<close> stands for a subkernel body produced by TSFC.
\<close>

datatype ast =
    Symbol string
  | Generated nat
  | Block "ast list"
  | FunDecl string string "ast list" ast "string list"
  | Node "ast list"

text \<open>
  The argument of \<^verbatim>\<open>construct_ast\<close> is an arbitrary Python object; the source tests it with
  \<^verbatim>\<open>isinstance(macro_kernels, list)\<close>. \<open>PyList\<close> is an object that passes the test, with
  its items; a tuple and \<^verbatim>\<open>None\<close> are two that do not.
\<close>

datatype py_value =
    PyList "ast list"
  | PyTuple "ast list"
  | PyNone

section \<open>Slate expression nodes and the collaborators of the builder\<close>

text \<open>
  A Slate node is a Python object; it is identified by its identity, a natural number here.
  \<open>node_class\<close> is the class of the object as the \<^verbatim>\<open>isinstance\<close> tests of the source see
  it: \<^verbatim>\<open>Tensor\<close>, \<^verbatim>\<open>Action\<close> (a \<^verbatim>\<open>TensorOp\<close>), any other \<^verbatim>\<open>TensorOp\<close>, any other
  \<^verbatim>\<open>TensorBase\<close>, and an object that is no \<^verbatim>\<open>TensorBase\<close> at all.
\<close>

type_synonym node = nat

datatype node_class = ClsTensor | ClsTensorOp | ClsAction | ClsTensorBase | ClsObject

fun is_TensorBase :: "node_class \<Rightarrow> bool" where
  "is_TensorBase ClsObject = False"
| "is_TensorBase _ = True"

fun is_Tensor :: "node_class \<Rightarrow> bool" where
  "is_Tensor ClsTensor = True"
| "is_Tensor _ = False"

fun is_TensorOp :: "node_class \<Rightarrow> bool" where
  "is_TensorOp ClsTensorOp = True"
| "is_TensorOp ClsAction = True"
| "is_TensorOp _ = False"

fun is_Action :: "node_class \<Rightarrow> bool" where
  "is_Action ClsAction = True"
| "is_Action _ = False"

text \<open>UFL coefficients: \<^verbatim>\<open>type(c.ufl_element())\<close> and \<^verbatim>\<open>c.split()\<close>.\<close>

datatype element_class = FiniteElement | MixedElement | VectorElement | TensorElement

record coefficient =
  coeff_count :: nat
  ufl_element :: element_class
  split :: "nat list"

text \<open>What \<^verbatim>\<open>compile_terminal_form\<close> returns: context kernels holding TSFC split kernels.\<close>

datatype subdomain = SubdomainStr string | SubdomainInt int

record splitkernel =
  kinfo_oriented :: bool
  kinfo_subdomain_id :: subdomain
  kinfo_kernel_ast :: ast

record context_kernel =
  tsfc_kernels :: "splitkernel list"
  original_integral_type :: string

type_synonym tsfc_params = "(string \<times> string) list"

text \<open>
  The functions the builder imports from modules that are not part of the embedded files
  (\<^verbatim>\<open>slate.slac.utils\<close>, \<^verbatim>\<open>slate.slate\<close>, \<^verbatim>\<open>slate.slac.tsfc_driver\<close>) are parameters:
  every theorem below holds for whatever they compute.
  \<^item> \<open>traverse_dags\<close>: the sequence of nodes the generator yields for a list of roots;
  \<^item> \<open>collect_reference_count\<close>: the mapping it returns, \<open>None\<close> where a subscript raises;
  \<^item> \<open>count_operands\<close>: the sort key;
  \<^item> \<open>coefficients\<close>: \<^verbatim>\<open>expression.coefficients()\<close>;
  \<^item> \<open>compile_terminal_form\<close>: the tuple of context kernels, or the exception it raises;
  \<^item> \<open>transformer_visit\<close>: \<^verbatim>\<open>Transformer().visit\<close>.
\<close>

record slate_env =
  node_class_of :: "node \<Rightarrow> node_class"
  traverse_dags :: "node list \<Rightarrow> node list"
  collect_reference_count :: "node list \<Rightarrow> node \<Rightarrow> nat option"
  count_operands :: "node \<Rightarrow> nat"
  coefficients :: "node \<Rightarrow> coefficient list"
  compile_terminal_form :: "node \<Rightarrow> string \<Rightarrow> tsfc_params option \<Rightarrow> error + context_kernel list"
  transformer_visit :: "ast \<Rightarrow> ast"

section \<open>The KernelBuilder object\<close>

text \<open>
  The attributes \<^verbatim>\<open>__init__\<close> assigns, and the two \<^verbatim>\<open>cached_property\<close> slots, which are
  \<open>None\<close> until the property is first read. \<open>temps\<close> is the \<^verbatim>\<open>OrderedDict\<close> as the list
  of its items in insertion order.
\<close>

record builder =
  expression :: node
  tsfc_parameters :: "tsfc_params option"
  needs_cell_facets :: bool
  needs_mesh_layers :: bool
  oriented :: bool
  finalized_ast :: "ast list option"
  is_finalized :: bool
  temps :: "(node \<times> ast) list"
  aux_exprs :: "node list"
  coefficient_map_cache :: "(coefficient \<times> ast list) list option"
  context_kernels_cache :: "context_kernel list option"

subsection \<open>\<^verbatim>\<open>construct_ast\<close>\<close>

text \<open>
  \<^verbatim>\<open>kernel_ast = self.finalized_ast\<close> binds a second name to the list object the builder
  holds, and \<^verbatim>\<open>kernel_ast.extend(macro_kernels)\<close> extends that object in place: the
  attribute \<^verbatim>\<open>finalized_ast\<close> reads the extended list afterwards. The artifact is
  \<^verbatim>\<open>ast.Node\<close> of the list as it is when the call returns.
\<close>

definition construct_ast :: "builder \<Rightarrow> py_value \<Rightarrow> (error + ast) \<times> builder" where
  "construct_ast b macro_kernels =
     (case macro_kernels of
        PyList mks \<Rightarrow>
          if \<not> is_finalized b then
            (Inl (AssertionError ''AST not finalized. Did you forget to call builder._finalize_kernels_and_update()?''), b)
          else
            (case finalized_ast b of
               None \<Rightarrow> (Inl AttributeError, b)
             | Some kernel_ast \<Rightarrow>
                 (Inr (Node (kernel_ast @ mks)), b\<lparr>finalized_ast := Some (kernel_ast @ mks)\<rparr>))
      | _ \<Rightarrow> (Inl (AssertionError ''Please wrap all macro kernel functions in a list''), b))"

subsection \<open>\<^verbatim>\<open>generate_expr_data\<close>\<close>

text \<open>
  \<^verbatim>\<open>temps.setdefault(k, v)\<close> on an \<^verbatim>\<open>OrderedDict\<close>: a key that is present keeps its
  value and its place; a new key is appended.
\<close>

definition setdefault :: "('k \<times> 'v) list \<Rightarrow> 'k \<Rightarrow> 'v \<Rightarrow> ('k \<times> 'v) list" where
  "setdefault d k v = (if k \<in> fst ` set d then d else d @ [(k, v)])"

text \<open>
  The \<^verbatim>\<open>for tensor in traverse_dags([expr])\<close> loop, over the sequence the generator
  yields, with the two locals \<^verbatim>\<open>temps\<close> (here \<open>tmps\<close>) and \<^verbatim>\<open>tensor_ops\<close>. A node that is neither a
  \<^verbatim>\<open>Tensor\<close> nor a \<^verbatim>\<open>TensorOp\<close> is skipped (the \<^verbatim>\<open>if\<close>/\<^verbatim>\<open>elif\<close> has no \<^verbatim>\<open>else\<close>).
\<close>

fun generate_loop ::
  "(node \<Rightarrow> node_class) \<Rightarrow> node list \<Rightarrow> (node \<times> ast) list \<Rightarrow> node list
     \<Rightarrow> (node \<times> ast) list \<times> node list" where
  "generate_loop cls [] tmps tensor_ops = (tmps, tensor_ops)"
| "generate_loop cls (tensor # rest) tmps tensor_ops =
     (if is_Tensor (cls tensor) then
        generate_loop cls rest
          (setdefault tmps tensor (Symbol (''T'' @ string_of_nat (length tmps)))) tensor_ops
      else if is_TensorOp (cls tensor) then
        generate_loop cls rest tmps (tensor_ops @ [tensor])
      else generate_loop cls rest tmps tensor_ops)"

text \<open>Python's \<^verbatim>\<open>sorted\<close> is stable; so is \<open>sort_key\<close> (insertion sort).\<close>

definition generate_expr_data :: "slate_env \<Rightarrow> node \<Rightarrow> (node \<times> ast) list \<times> node list" where
  "generate_expr_data env expr =
     (case generate_loop (node_class_of env) (traverse_dags env [expr]) [] [] of
        (tmps, tensor_ops) \<Rightarrow> (tmps, sort_key (count_operands env) tensor_ops))"

subsection \<open>\<^verbatim>\<open>KernelBuilder.__init__\<close>\<close>

text \<open>
  The \<^verbatim>\<open>for op in tensor_ops\<close> loop. \<^verbatim>\<open>ref_counts[op]\<close> is evaluated first, so a node
  the mapping does not know raises before the \<^verbatim>\<open>isinstance\<close> test.
\<close>

fun collect_aux ::
  "(node \<Rightarrow> node_class) \<Rightarrow> (node \<Rightarrow> nat option) \<Rightarrow> node list \<Rightarrow> node list \<Rightarrow> error + node list" where
  "collect_aux cls ref_counts [] aux = Inr aux"
| "collect_aux cls ref_counts (op # rest) aux =
     (case ref_counts op of
        None \<Rightarrow> Inl KeyError
      | Some c \<Rightarrow>
          if c > 1 \<or> is_Action (cls op) then collect_aux cls ref_counts rest (aux @ [op])
          else collect_aux cls ref_counts rest aux)"

definition KernelBuilder_init :: "slate_env \<Rightarrow> node \<Rightarrow> tsfc_params option \<Rightarrow> error + builder" where
  "KernelBuilder_init env expr params =
     (if \<not> is_TensorBase (node_class_of env expr) then Inl (AssertionError [])
      else
        (case generate_expr_data env expr of
           (tmps, tensor_ops) \<Rightarrow>
             (case collect_aux (node_class_of env) (collect_reference_count env [expr]) tensor_ops [] of
                Inl e \<Rightarrow> Inl e
              | Inr aux \<Rightarrow>
                  Inr \<lparr>expression = expr, tsfc_parameters = params,
                       needs_cell_facets = False, needs_mesh_layers = False,
                       oriented = False, finalized_ast = None, is_finalized = False,
                       temps = tmps, aux_exprs = aux,
                       coefficient_map_cache = None, context_kernels_cache = None\<rparr>)))"

subsection \<open>Flag setters and \<^verbatim>\<open>integral_type\<close>\<close>

definition integral_type :: "builder \<Rightarrow> string" where
  "integral_type b = ''cell''"

definition require_cell_facets :: "builder \<Rightarrow> builder" where
  "require_cell_facets b = b\<lparr>needs_cell_facets := True\<rparr>"

definition require_mesh_layers :: "builder \<Rightarrow> builder" where
  "require_mesh_layers b = b\<lparr>needs_mesh_layers := True\<rparr>"

subsection \<open>\<^verbatim>\<open>coefficient_map\<close> and \<^verbatim>\<open>coefficient\<close>\<close>

text \<open>\<^verbatim>\<open>d[k] = v\<close> on an \<^verbatim>\<open>OrderedDict\<close>: a present key keeps its place and takes the new value.\<close>

fun setitem :: "('k \<times> 'v) list \<Rightarrow> 'k \<Rightarrow> 'v \<Rightarrow> ('k \<times> 'v) list" where
  "setitem [] k v = [(k, v)]"
| "setitem ((k', v') # d) k v = (if k' = k then (k, v) # d else (k', v') # setitem d k v)"

text \<open>
  The symbols of one coefficient at position \<open>i\<close>: the inner loop runs over
  \<^verbatim>\<open>enumerate(coefficient.split())\<close> when the type of the element is exactly
  \<^verbatim>\<open>MixedElement\<close> (the test is \<^verbatim>\<open>type(...) == MixedElement\<close>, so a subclass such as
  \<^verbatim>\<open>VectorElement\<close> takes the other branch).
\<close>

definition csym_info :: "nat \<Rightarrow> coefficient \<Rightarrow> ast list" where
  "csym_info i c =
     (if ufl_element c = MixedElement then
        map (\<lambda>j. Symbol (''w_'' @ string_of_nat i @ ''_'' @ string_of_nat j)) [0..<length (split c)]
      else [Symbol (''w_'' @ string_of_nat i)])"

fun coefficient_map_loop ::
  "nat \<Rightarrow> coefficient list \<Rightarrow> (coefficient \<times> ast list) list \<Rightarrow> (coefficient \<times> ast list) list" where
  "coefficient_map_loop i [] m = m"
| "coefficient_map_loop i (c # cs) m = coefficient_map_loop (Suc i) cs (setitem m c (csym_info i c))"

text \<open>
  \<^verbatim>\<open>cached_property\<close>: the first read computes the value and stores it on the instance;
  later reads return what is stored.
\<close>

definition coefficient_map ::
  "slate_env \<Rightarrow> builder \<Rightarrow> (coefficient \<times> ast list) list \<times> builder" where
  "coefficient_map env b =
     (case coefficient_map_cache b of
        Some m \<Rightarrow> (m, b)
      | None \<Rightarrow>
          (let m = coefficient_map_loop 0 (coefficients env (expression b)) []
           in (m, b\<lparr>coefficient_map_cache := Some m\<rparr>)))"

definition coefficient_of ::
  "slate_env \<Rightarrow> builder \<Rightarrow> coefficient \<Rightarrow> (error + ast list) \<times> builder" where
  "coefficient_of env b c =
     (case coefficient_map env b of
        (m, b') \<Rightarrow> (case map_of m c of None \<Rightarrow> (Inl KeyError, b') | Some syms \<Rightarrow> (Inr syms, b')))"

subsection \<open>\<^verbatim>\<open>context_kernels\<close>\<close>

text \<open>
  The first list comprehension calls \<^verbatim>\<open>compile_terminal_form\<close> for the keys of
  \<^verbatim>\<open>temps\<close> in order, with the prefix \<^verbatim>\<open>"subkernel%d_" % i\<close>; an exception of a call
  ends the comprehension. The second comprehension flattens the tuples.
\<close>

fun compile_all ::
  "slate_env \<Rightarrow> tsfc_params option \<Rightarrow> nat \<Rightarrow> node list \<Rightarrow> error + context_kernel list list" where
  "compile_all env params i [] = Inr []"
| "compile_all env params i (expr # rest) =
     (case compile_terminal_form env expr (''subkernel'' @ string_of_nat i @ ''_'') params of
        Inl e \<Rightarrow> Inl e
      | Inr cxt_tuple \<Rightarrow>
          (case compile_all env params (Suc i) rest of
             Inl e \<Rightarrow> Inl e
           | Inr cxt_list \<Rightarrow> Inr (cxt_tuple # cxt_list)))"

definition context_kernels ::
  "slate_env \<Rightarrow> builder \<Rightarrow> (error + context_kernel list) \<times> builder" where
  "context_kernels env b =
     (case context_kernels_cache b of
        Some cxt_kernels \<Rightarrow> (Inr cxt_kernels, b)
      | None \<Rightarrow>
          (case compile_all env (tsfc_parameters b) 0 (map fst (temps b)) of
             Inl e \<Rightarrow> (Inl e, b)
           | Inr cxt_list \<Rightarrow>
               (Inr (concat cxt_list), b\<lparr>context_kernels_cache := Some (concat cxt_list)\<rparr>)))"

subsection \<open>\<^verbatim>\<open>construct_macro_kernel\<close>\<close>

fun construct_macro_kernel :: "string \<Rightarrow> ast list \<Rightarrow> ast \<Rightarrow> error + ast" where
  "construct_macro_kernel name args (Block stmts) =
     Inr (FunDecl ''void'' name args (Block stmts) [''static'', ''inline''])"
| "construct_macro_kernel name args _ =
     Inl (AssertionError ''Body statements must be wrapped in an ast.Block'')"

subsection \<open>\<^verbatim>\<open>_finalize_kernels_and_update\<close>\<close>

text \<open>
  The \<^verbatim>\<open>for splitkernel in splitkernels\<close> loop over the locals \<^verbatim>\<open>oriented\<close>
  (here \<open>orntd\<close>) and \<^verbatim>\<open>kernel_list\<close>. The \<^verbatim>\<open>raise\<close> leaves the loop and the
  method, so the three assignments to \<^verbatim>\<open>self\<close> after the loop are not reached.
  \<^verbatim>\<open>self.oriented\<close> is read before \<^verbatim>\<open>self.context_kernels\<close>, whose first read fills
  the slot of the cached property.
\<close>

fun finalize_loop ::
  "(ast \<Rightarrow> ast) \<Rightarrow> bool \<Rightarrow> ast list \<Rightarrow> splitkernel list \<Rightarrow> error + (bool \<times> ast list)" where
  "finalize_loop visit orntd kernel_list [] = Inr (orntd, kernel_list)"
| "finalize_loop visit orntd kernel_list (sk # rest) =
     (let orntd' = (orntd \<or> kinfo_oriented sk) in
      if kinfo_subdomain_id sk \<noteq> SubdomainStr ''otherwise'' then
        Inl (NotImplementedError ''Subdomains not implemented yet.'')
      else
        finalize_loop visit orntd' (kernel_list @ [visit (kinfo_kernel_ast sk)]) rest)"

definition finalize_kernels_and_update :: "slate_env \<Rightarrow> builder \<Rightarrow> (error + unit) \<times> builder" where
  "finalize_kernels_and_update env b =
     (case context_kernels env b of
        (Inl e, b') \<Rightarrow> (Inl e, b')
      | (Inr cxt_kernels, b') \<Rightarrow>
          (case finalize_loop (transformer_visit env) (oriented b) []
                  (concat (map tsfc_kernels cxt_kernels)) of
             Inl e \<Rightarrow> (Inl e, b')
           | Inr (orntd, kernel_list) \<Rightarrow>
               (Inr (), b'\<lparr>oriented := orntd, finalized_ast := Some kernel_list,
                            is_finalized := True\<rparr>)))"

subsection \<open>Sequences of calls on one builder\<close>

text \<open>
  The public operations of the class as a datatype of calls; \<open>call\<close> performs one and
  returns the builder as the call leaves it, whether it returned or raised.
\<close>

datatype builder_call =
    Require_cell_facets
  | Require_mesh_layers
  | Coefficient_map
  | Coefficient coefficient
  | Context_kernels
  | Integral_type
  | Construct_macro_kernel string "ast list" ast
  | Finalize
  | Construct_ast py_value

fun call :: "slate_env \<Rightarrow> builder \<Rightarrow> builder_call \<Rightarrow> builder" where
  "call env b Require_cell_facets = require_cell_facets b"
| "call env b Require_mesh_layers = require_mesh_layers b"
| "call env b Coefficient_map = snd (coefficient_map env b)"
| "call env b (Coefficient c) = snd (coefficient_of env b c)"
| "call env b Context_kernels = snd (context_kernels env b)"
| "call env b Integral_type = b"
| "call env b (Construct_macro_kernel name args statements) = b"
| "call env b Finalize = snd (finalize_kernels_and_update env b)"
| "call env b (Construct_ast macro_kernels) = snd (construct_ast b macro_kernels)"

fun calls :: "slate_env \<Rightarrow> builder \<Rightarrow> builder_call list \<Rightarrow> builder" where
  "calls env b [] = b"
| "calls env b (c # cs) = calls env (call env b c) cs"

subsection \<open>First encounters\<close>

text \<open>
  The distinct elements of a sequence in the order in which they first occur, \<open>seen\<close>
  being the elements met before. The theorems on the temporaries state the order of the
  keys with it.
\<close>

fun first_encounters :: "'a list \<Rightarrow> 'a list \<Rightarrow> 'a list" where
  "first_encounters seen [] = []"
| "first_encounters seen (x # xs) =
     (if x \<in> set seen then first_encounters seen xs
      else x # first_encounters (seen @ [x]) xs)"

text \<open>The symbol \<^verbatim>\<open>ast.Symbol("T%d" % i)\<close>.\<close>

definition temp_symbol :: "nat \<Rightarrow> ast" where
  "temp_symbol i = Symbol (''T'' @ string_of_nat i)"

subsection \<open>The test of the constructor's loop\<close>

text \<open>
  \<^verbatim>\<open>ref_counts[op] > 1 or isinstance(op, Action)\<close>, for a node whose count is known.
\<close>

definition needs_aux :: "(node \<Rightarrow> node_class) \<Rightarrow> (node \<Rightarrow> nat option) \<Rightarrow> node \<Rightarrow> bool" where
  "needs_aux cls ref_counts op =
     ((case ref_counts op of None \<Rightarrow> False | Some c \<Rightarrow> c > 1) \<or> is_Action (cls op))"

subsection \<open>Renaming the nodes of a graph\<close>

text \<open>
  Two graphs built from independent node instances have the same shape when a renaming
  \<open>f\<close> of the nodes of the first yields the second. The items of a temporaries map are
  renamed on their keys.
\<close>

definition rename_items :: "(node \<Rightarrow> node) \<Rightarrow> (node \<times> ast) list \<Rightarrow> (node \<times> ast) list" where
  "rename_items f tmps = map (\<lambda>(n, s). (f n, s)) tmps"

text \<open>The builder of the second run is the builder of the first with its nodes renamed.\<close>

definition rename_builder :: "(node \<Rightarrow> node) \<Rightarrow> builder \<Rightarrow> builder" where
  "rename_builder f b =
     b\<lparr>expression := f (expression b), temps := rename_items f (temps b),
       aux_exprs := map f (aux_exprs b)\<rparr>"

section \<open>A worked expression\<close>

text \<open>
  The expression \<open>A * B + action(A * B)\<close>, with its nodes numbered from \<open>k\<close>: the sum
  \<open>k\<close>, the product \<open>k + 1\<close> (shared by the sum and the action), the action \<open>k + 2\<close>
  and the terminal tensors \<open>k + 3\<close> and \<open>k + 4\<close>. Two coefficients belong to it, the first
  on a mixed space of three parts. Each terminal compiles to one context kernel of one
  split kernel; the kernel of the second terminal needs orientations.
\<close>

definition example_coefficients :: "coefficient list" where
  "example_coefficients =
     [\<lparr>coeff_count = 7, ufl_element = MixedElement, split = [70, 71, 72]\<rparr>,
      \<lparr>coeff_count = 9, ufl_element = VectorElement, split = [90, 91]\<rparr>]"

definition example_env :: "nat \<Rightarrow> slate_env" where
  "example_env k =
     \<lparr>node_class_of = (\<lambda>n. if n = k \<or> n = k + 1 then ClsTensorOp
                           else if n = k + 2 then ClsAction
                           else if n = k + 3 \<or> n = k + 4 then ClsTensor else ClsObject),
      traverse_dags = (\<lambda>roots. if roots = [k] then [k, k + 2, k + 1, k + 4, k + 3] else []),
      collect_reference_count =
        (\<lambda>roots n. if n = k + 1 then Some 2 else if k \<le> n \<and> n \<le> k + 4 then Some 1 else None),
      count_operands = (\<lambda>n. if n = k then 5 else if n = k + 1 then 3
                            else if n = k + 2 then 4 else 1),
      coefficients = (\<lambda>n. example_coefficients),
      compile_terminal_form =
        (\<lambda>n prefix params.
           Inr [\<lparr>tsfc_kernels = [\<lparr>kinfo_oriented = (n = k + 3),
                                   kinfo_subdomain_id = SubdomainStr ''otherwise'',
                                   kinfo_kernel_ast = Generated n\<rparr>],
                 original_integral_type = ''cell''\<rparr>]),
      transformer_visit = (\<lambda>a. Block [a])\<rparr>"

text \<open>The same expression compiled by a form compiler that reports the subdomain 1.\<close>

definition example_env_subdomain :: slate_env where
  "example_env_subdomain =
     (example_env 0)\<lparr>compile_terminal_form :=
        (\<lambda>n prefix params.
           Inr [\<lparr>tsfc_kernels = [\<lparr>kinfo_oriented = True,
                                   kinfo_subdomain_id = SubdomainInt 1,
                                   kinfo_kernel_ast = Generated n\<rparr>],
                 original_integral_type = ''cell''\<rparr>])\<rparr>"


text \<open>The builder of the expression, as the constructor returns it.\<close>

definition example_builder :: "nat \<Rightarrow> builder" where
  "example_builder k =
     \<lparr>expression = k, tsfc_parameters = None,
      needs_cell_facets = False, needs_mesh_layers = False,
      oriented = False, finalized_ast = None, is_finalized = False,
      temps = [(k + 4, Symbol ''T0''), (k + 3, Symbol ''T1'')], aux_exprs = [k + 1, k + 2],
      coefficient_map_cache = None, context_kernels_cache = None\<rparr>"

text \<open>A finalized builder holding one subkernel.\<close>

definition finalized_builder :: builder where
  "finalized_builder =
     (example_builder 0)\<lparr>finalized_ast := Some [Generated 0], is_finalized := True\<rparr>"

section \<open>Halo exchange (\<^verbatim>\<open>firedrake/halo.py\<close>)\<close>

text \<open>
  PyOP2 access descriptors (\<^verbatim>\<open>op2.WRITE\<close>, \<^verbatim>\<open>op2.INC\<close>, ...); the source compares them
  by identity.
\<close>

datatype access = READ | WRITE | RW | INC | MIN | MAX

text \<open>
  A numpy dtype. \<open>dtype_descr\<close> is what its \<^verbatim>\<open>__eq__\<close> and \<^verbatim>\<open>__hash__\<close> compare, so
  what a dictionary keyed by dtypes distinguishes (\<^verbatim>\<open><f8\<close> and \<^verbatim>\<open>>f8\<close> differ, the
  two eight-byte integers \<^verbatim>\<open>l\<close> and \<^verbatim>\<open>q\<close> do not); \<open>dtype_char\<close> is
  \<^verbatim>\<open>dtype.char\<close>, the key of the MPI type dictionary.
\<close>

record dtype =
  dtype_descr :: string
  dtype_char :: string

text \<open>A \<^verbatim>\<open>Dat\<close>: its dtype, its \<^verbatim>\<open>cdim\<close> and its values.\<close>

record dat =
  dat_dtype :: dtype
  dat_cdim :: nat
  dat_data :: "int list"

datatype mpi_type = Base_type string | Contiguous mpi_type nat

datatype sf_type = BASIC | WINDOW

record star_forest =
  sf_type_of :: sf_type
  sf_graph :: "(nat \<times> nat) list"

text \<open>
  What the four operations read and write: the module dictionary \<^verbatim>\<open>_MPI_types\<close>, the
  slot of the cached property \<^verbatim>\<open>sf\<close>, the array, and the calls made to the
  communication layer (\<open>True\<close> for a reverse exchange).
\<close>

datatype communication = Halo_begin bool | Halo_end bool

record halo_state =
  MPI_types :: "((string \<times> nat) \<times> mpi_type) list"
  sf_cache :: "star_forest option"
  the_dat :: dat
  communications :: "communication list"

text \<open>
  The collaborators of the halo are parameters: the size of the communicator,
  \<^verbatim>\<open>MPI.__TypeDict__\<close>, the star forest \<^verbatim>\<open>dmplex.prune_sf\<close> returns, and what
  \<^verbatim>\<open>dmplex.halo_begin\<close> and \<^verbatim>\<open>dmplex.halo_end\<close> do to the array.
\<close>

record halo_env =
  comm_size :: nat
  typedict :: "string \<Rightarrow> mpi_type option"
  pruned_sf :: star_forest
  halo_begin :: "star_forest \<Rightarrow> dat \<Rightarrow> mpi_type \<Rightarrow> bool \<Rightarrow> dat"
  halo_end :: "star_forest \<Rightarrow> dat \<Rightarrow> mpi_type \<Rightarrow> bool \<Rightarrow> dat"

text \<open>
  \<^verbatim>\<open>_get_mtype\<close>: the key of \<^verbatim>\<open>_MPI_types\<close> is the pair of the dtype and of
  \<^verbatim>\<open>cdim\<close>; the base type is looked up under \<^verbatim>\<open>dat.dtype.char\<close>.
\<close>

definition get_mtype :: "halo_env \<Rightarrow> halo_state \<Rightarrow> (error + mpi_type) \<times> halo_state" where
  "get_mtype env s =
     (let key = (dtype_descr (dat_dtype (the_dat s)), dat_cdim (the_dat s)) in
      case map_of (MPI_types s) key of
        Some typ \<Rightarrow> (Inr typ, s)
      | None \<Rightarrow>
          (case typedict env (dtype_char (dat_dtype (the_dat s))) of
             None \<Rightarrow>
               (Inl (RuntimeError ''Unknown base type %r'' [dtype_descr (dat_dtype (the_dat s))]), s)
           | Some btype \<Rightarrow>
               (let typ = (if dat_cdim (the_dat s) = 1 then btype
                           else Contiguous btype (dat_cdim (the_dat s)))
                in (Inr typ, s\<lparr>MPI_types := MPI_types s @ [(key, typ)]\<rparr>))))"

definition sf :: "halo_env \<Rightarrow> halo_state \<Rightarrow> (error + star_forest) \<times> halo_state" where
  "sf env s =
     (case sf_cache s of
        Some f \<Rightarrow> (Inr f, s)
      | None \<Rightarrow>
          if sf_type_of (pruned_sf env) \<noteq> BASIC then
            (Inl (RuntimeError ''Windowed SFs expose bugs in OpenMPI (use -sf_type basic)'' []), s)
          else (Inr (pruned_sf env), s\<lparr>sf_cache := Some (pruned_sf env)\<rparr>))"

text \<open>
  The common tail of the four operations, after the assertion and the test of the
  communicator: \<^verbatim>\<open>mtype = _get_mtype(dat)\<close>, then the call of the communication layer
  with \<^verbatim>\<open>self.sf\<close>.
\<close>

definition exchange ::
  "halo_env \<Rightarrow> halo_state \<Rightarrow> (star_forest \<Rightarrow> dat \<Rightarrow> mpi_type \<Rightarrow> bool \<Rightarrow> dat) \<Rightarrow> communication \<Rightarrow> bool
     \<Rightarrow> (error + unit) \<times> halo_state" where
  "exchange env s run event reverse =
     (case get_mtype env s of
        (Inl e, s1) \<Rightarrow> (Inl e, s1)
      | (Inr mtype, s1) \<Rightarrow>
          (case sf env s1 of
             (Inl e, s2) \<Rightarrow> (Inl e, s2)
           | (Inr f, s2) \<Rightarrow>
               (Inr (), s2\<lparr>the_dat := run f (the_dat s2) mtype reverse,
                            communications := communications s2 @ [event]\<rparr>)))"

definition global_to_local_begin :: "halo_env \<Rightarrow> halo_state \<Rightarrow> access \<Rightarrow> (error + unit) \<times> halo_state" where
  "global_to_local_begin env s insert_mode =
     (if insert_mode \<noteq> WRITE then (Inl (AssertionError ''Only WRITE GtoL supported''), s)
      else if comm_size env = 1 then (Inr (), s)
      else exchange env s (halo_begin env) (Halo_begin False) False)"

definition global_to_local_end :: "halo_env \<Rightarrow> halo_state \<Rightarrow> access \<Rightarrow> (error + unit) \<times> halo_state" where
  "global_to_local_end env s insert_mode =
     (if insert_mode \<noteq> WRITE then (Inl (AssertionError ''Only WRITE GtoL supported''), s)
      else if comm_size env = 1 then (Inr (), s)
      else exchange env s (halo_end env) (Halo_end False) False)"

definition local_to_global_begin :: "halo_env \<Rightarrow> halo_state \<Rightarrow> access \<Rightarrow> (error + unit) \<times> halo_state" where
  "local_to_global_begin env s insert_mode =
     (if insert_mode \<noteq> INC then (Inl (AssertionError ''Only INC LtoG supported''), s)
      else if comm_size env = 1 then (Inr (), s)
      else exchange env s (halo_begin env) (Halo_begin True) True)"

definition local_to_global_end :: "halo_env \<Rightarrow> halo_state \<Rightarrow> access \<Rightarrow> (error + unit) \<times> halo_state" where
  "local_to_global_end env s insert_mode =
     (if insert_mode \<noteq> INC then (Inl (AssertionError ''Only INC LtoG supported''), s)
      else if comm_size env = 1 then (Inr (), s)
      else exchange env s (halo_end env) (Halo_end True) True)"

text \<open>A halo on a communicator of one rank, and an array of three values.\<close>

definition serial_halo :: halo_env where
  "serial_halo =
     \<lparr>comm_size = 1, typedict = (\<lambda>c. if c = ''d'' then Some (Base_type ''MPI_DOUBLE'') else None),
      pruned_sf = \<lparr>sf_type_of = BASIC, sf_graph = []\<rparr>,
      halo_begin = (\<lambda>f d t reverse. d), halo_end = (\<lambda>f d t reverse. d\<lparr>dat_data := map (\<lambda>x. x + 1) (dat_data d)\<rparr>)\<rparr>"

definition serial_state :: halo_state where
  "serial_state =
     \<lparr>MPI_types = [], sf_cache = None,
      the_dat = \<lparr>dat_dtype = \<lparr>dtype_descr = ''<f8'', dtype_char = ''d''\<rparr>, dat_cdim = 1,
                 dat_data = [1, 2, 3]\<rparr>,
      communications = []\<rparr>"

section \<open>The worked expression, evaluated\<close>

lemma string_of_nat_digits [simp]:
  "string_of_nat 0 = ''0''" "string_of_nat 1 = ''1''" "string_of_nat 2 = ''2''"
  "string_of_nat (Suc 0) = ''1''" "string_of_nat (Suc (Suc 0)) = ''2''"
  by (simp_all add: string_of_nat.simps digit_char_def)

lemma example_generate_expr_data:
  "generate_expr_data (example_env k) k =
     ([(k + 4, Symbol ''T0''), (k + 3, Symbol ''T1'')], [k + 1, k + 2, k])"
  by (simp add: generate_expr_data_def example_env_def setdefault_def)

lemma example_KernelBuilder_init:
  "KernelBuilder_init (example_env k) k None = Inr (example_builder k)"
  by (simp add: KernelBuilder_init_def example_generate_expr_data example_builder_def)
     (simp add: example_env_def)

section \<open>Properties of \<^verbatim>\<open>construct_ast\<close>\<close>

text \<open>
  C9. On a finalized builder, \<^verbatim>\<open>construct_ast\<close> accepts a Python list and nothing else:
  for a list it returns the artifact, and for every other argument (a tuple of macro
  kernels, for one) the first assertion fails, no artifact is returned and the builder is
  left as it was.
\<close>

theorem construct_ast_accepts_only_list:
  assumes "is_finalized b" and "finalized_ast b = Some ks"
  shows "case arg of
           PyList mks \<Rightarrow> fst (construct_ast b arg) = Inr (Node (ks @ mks))
         | _ \<Rightarrow> construct_ast b arg =
                 (Inl (AssertionError ''Please wrap all macro kernel functions in a list''), b)"
  using assms by (cases arg) (simp_all add: construct_ast_def)

theorem construct_ast_accepts_only_list_witness:
  "construct_ast finalized_builder (PyTuple [Generated 7]) =
     (Inl (AssertionError ''Please wrap all macro kernel functions in a list''), finalized_builder)"
  using construct_ast_accepts_only_list [of finalized_builder "[Generated 0]" "PyTuple [Generated 7]"]
  by (simp add: finalized_builder_def)

text \<open>
  C1 (the code departs from the claim). On a finalized builder holding the subkernels
  \<open>ks\<close>, the first call of \<^verbatim>\<open>construct_ast\<close> with a non-empty list \<open>mks\<close> of macro kernels
  returns \<open>ks @ mks\<close> and leaves \<open>ks @ mks\<close> in the builder's \<^verbatim>\<open>finalized_ast\<close>; a second
  call with the same list returns \<open>ks @ mks @ mks\<close>, an artifact of another content.
\<close>

theorem construct_ast_repeated_call_differs:
  assumes "is_finalized b" and "finalized_ast b = Some ks" and "mks \<noteq> []"
  shows "fst (construct_ast b (PyList mks)) = Inr (Node (ks @ mks)) \<and>
         finalized_ast (snd (construct_ast b (PyList mks))) = Some (ks @ mks) \<and>
         fst (construct_ast (snd (construct_ast b (PyList mks))) (PyList mks)) =
           Inr (Node (ks @ mks @ mks)) \<and>
         fst (construct_ast (snd (construct_ast b (PyList mks))) (PyList mks)) \<noteq>
           fst (construct_ast b (PyList mks))"
  using assms by (simp add: construct_ast_def)

theorem construct_ast_repeated_call_differs_witness:
  "fst (construct_ast finalized_builder (PyList [Generated 1])) =
     Inr (Node [Generated 0, Generated 1]) \<and>
   fst (construct_ast (snd (construct_ast finalized_builder (PyList [Generated 1])))
          (PyList [Generated 1])) =
     Inr (Node [Generated 0, Generated 1, Generated 1]) \<and>
   finalized_ast (snd (construct_ast finalized_builder (PyList [Generated 1]))) =
     Some [Generated 0, Generated 1]"
  using construct_ast_repeated_call_differs [of finalized_builder "[Generated 0]" "[Generated 1]"]
  by (simp add: finalized_builder_def)

section \<open>The temporaries of \<^verbatim>\<open>generate_expr_data\<close>\<close>

lemma set_first_encounters: "set (first_encounters seen xs) = set xs - set seen"
  by (induction xs arbitrary: seen) auto

lemma distinct_first_encounters: "distinct (first_encounters seen xs)"
  by (induction xs arbitrary: seen) (auto simp: set_first_encounters)

lemma first_encounters_disjoint: "set (first_encounters seen xs) \<inter> set seen = {}"
  by (auto simp: set_first_encounters)

lemma generate_loop_keys:
  "map fst (fst (generate_loop cls ts tmps ops)) =
     map fst tmps @ first_encounters (map fst tmps) (filter (\<lambda>t. is_Tensor (cls t)) ts)"
proof (induction ts arbitrary: tmps ops)
  case Nil
  show ?case by simp
next
  case (Cons t ts)
  show ?case
  proof (cases "is_Tensor (cls t)")
    case True
    then show ?thesis
      using Cons.IH [of "setdefault tmps t (Symbol (''T'' @ string_of_nat (length tmps)))" ops]
      by (auto simp: setdefault_def)
  next
    case False
    then show ?thesis using Cons.IH by simp
  qed
qed

lemma generate_loop_symbols:
  "map snd tmps = map temp_symbol [0..<length tmps] \<Longrightarrow>
   map snd (fst (generate_loop cls ts tmps ops)) =
     map temp_symbol [0..<length (fst (generate_loop cls ts tmps ops))]"
proof (induction ts arbitrary: tmps ops)
  case Nil
  then show ?case by simp
next
  case (Cons t ts)
  have step: "map snd (setdefault tmps t (Symbol (''T'' @ string_of_nat (length tmps)))) =
      map temp_symbol [0..<length (setdefault tmps t (Symbol (''T'' @ string_of_nat (length tmps))))]"
    using Cons.prems by (simp add: setdefault_def temp_symbol_def)
  show ?case
    using Cons.IH [OF step] Cons.IH [OF Cons.prems] by simp
qed

lemma is_Tensor_not_TensorOp: "is_Tensor c \<Longrightarrow> \<not> is_TensorOp c"
  by (cases c) auto

lemma generate_loop_ops:
  "snd (generate_loop cls ts tmps ops) = ops @ filter (\<lambda>t. is_TensorOp (cls t)) ts"
  by (induction ts arbitrary: tmps ops) (auto dest: is_Tensor_not_TensorOp)

text \<open>
  C5. The temporaries map of \<^verbatim>\<open>generate_expr_data\<close> has exactly one entry for each
  distinct \<^verbatim>\<open>Tensor\<close> node the traversal yields, however often the node is yielded: its
  keys are those nodes in the order of their first encounter, without repetition, and the
  value of the entry at position \<open>i\<close> is the symbol \<^verbatim>\<open>T\<close>\<open>i\<close>, so the names are
  \<^verbatim>\<open>T0\<close>, \<^verbatim>\<open>T1\<close>, ... in that order.
\<close>

theorem temps_one_entry_per_terminal:
  "map fst (fst (generate_expr_data env expr)) =
     first_encounters [] (filter (\<lambda>t. is_Tensor (node_class_of env t)) (traverse_dags env [expr])) \<and>
   distinct (map fst (fst (generate_expr_data env expr))) \<and>
   set (map fst (fst (generate_expr_data env expr))) =
     {t. t \<in> set (traverse_dags env [expr]) \<and> is_Tensor (node_class_of env t)} \<and>
   map snd (fst (generate_expr_data env expr)) =
     map temp_symbol [0..<length (fst (generate_expr_data env expr))]"
proof -
  let ?cls = "node_class_of env" and ?trav = "traverse_dags env [expr]"
  have fst_eq: "fst (generate_expr_data env expr) = fst (generate_loop ?cls ?trav [] [])"
    by (simp add: generate_expr_data_def split: prod.splits)
  have keys: "map fst (fst (generate_loop ?cls ?trav [] [])) =
      first_encounters [] (filter (\<lambda>t. is_Tensor (?cls t)) ?trav)"
    using generate_loop_keys [of ?cls ?trav "[]" "[]"] by simp
  have syms: "map snd (fst (generate_loop ?cls ?trav [] [])) =
      map temp_symbol [0..<length (fst (generate_loop ?cls ?trav [] []))]"
    by (rule generate_loop_symbols) simp
  have dist: "distinct (map fst (fst (generate_loop ?cls ?trav [] [])))"
    unfolding keys by (rule distinct_first_encounters)
  have st: "set (map fst (fst (generate_loop ?cls ?trav [] []))) =
      {t. t \<in> set ?trav \<and> is_Tensor (?cls t)}"
    unfolding keys by (auto simp: set_first_encounters)
  show ?thesis
    unfolding fst_eq using keys syms dist st by blast
qed

theorem temps_one_entry_per_terminal_witness:
  "map fst (fst (generate_expr_data (example_env 0) 0)) = [4, 3] \<and>
   map snd (fst (generate_expr_data (example_env 0) 0)) = [Symbol ''T0'', Symbol ''T1'']"
  using temps_one_entry_per_terminal [of "example_env 0" 0]
  by (simp add: example_generate_expr_data)

section \<open>The auxiliary expressions of the constructor\<close>

lemma filter_swap: "filter P (filter Q xs) = filter Q (filter P xs)"
  by (induction xs) auto

lemma collect_aux_Inr:
  "collect_aux cls rc ops aux = Inr r \<Longrightarrow>
     r = aux @ filter (needs_aux cls rc) ops \<and> (\<forall>op \<in> set ops. rc op \<noteq> None)"
proof (induction ops arbitrary: aux)
  case Nil
  then show ?case by simp
next
  case (Cons op ops)
  from Cons.prems obtain c where c: "rc op = Some c"
    by (auto split: option.splits)
  show ?case
  proof (cases "c > 1 \<or> is_Action (cls op)")
    case True
    with Cons.prems c have "collect_aux cls rc ops (aux @ [op]) = Inr r" by simp
    from Cons.IH [OF this] True c show ?thesis by (simp add: needs_aux_def)
  next
    case False
    with Cons.prems c have "collect_aux cls rc ops aux = Inr r" by simp
    from Cons.IH [OF this] False c show ?thesis by (simp add: needs_aux_def)
  qed
qed

lemma collect_aux_total:
  "\<forall>op \<in> set ops. rc op \<noteq> None \<Longrightarrow>
     collect_aux cls rc ops aux = Inr (aux @ filter (needs_aux cls rc) ops)"
  by (induction ops arbitrary: aux) (auto simp: needs_aux_def split: option.splits)

lemma KernelBuilder_init_Inr:
  assumes "KernelBuilder_init env expr params = Inr b"
  shows "temps b = fst (generate_expr_data env expr)"
    and "aux_exprs b = filter (needs_aux (node_class_of env) (collect_reference_count env [expr]))
           (sort_key (count_operands env)
             (filter (\<lambda>t. is_TensorOp (node_class_of env t)) (traverse_dags env [expr])))"
    and "\<forall>op \<in> set (traverse_dags env [expr]). is_TensorOp (node_class_of env op) \<longrightarrow>
           collect_reference_count env [expr] op \<noteq> None"
    and "is_TensorBase (node_class_of env expr)"
proof -
  obtain tmps tops where g: "generate_expr_data env expr = (tmps, tops)"
    by (cases "generate_expr_data env expr")
  have tops: "tops = sort_key (count_operands env)
      (filter (\<lambda>t. is_TensorOp (node_class_of env t)) (traverse_dags env [expr]))"
    using g generate_loop_ops [of "node_class_of env" "traverse_dags env [expr]" "[]" "[]"]
    by (auto simp: generate_expr_data_def split: prod.splits)
  from assms g obtain aux where
    aux: "collect_aux (node_class_of env) (collect_reference_count env [expr]) tops [] = Inr aux"
    and b: "temps b = tmps" "aux_exprs b = aux" and tb: "is_TensorBase (node_class_of env expr)"
    by (auto simp: KernelBuilder_init_def split: if_splits sum.splits)
  note ca = collect_aux_Inr [OF aux]
  show "temps b = fst (generate_expr_data env expr)" using b g by simp
  show "aux_exprs b = filter (needs_aux (node_class_of env) (collect_reference_count env [expr]))
           (sort_key (count_operands env)
             (filter (\<lambda>t. is_TensorOp (node_class_of env t)) (traverse_dags env [expr])))"
    using ca b tops by simp
  show "\<forall>op \<in> set (traverse_dags env [expr]). is_TensorOp (node_class_of env op) \<longrightarrow>
           collect_reference_count env [expr] op \<noteq> None"
    using ca tops by auto
  show "is_TensorBase (node_class_of env expr)" by (rule tb)
qed

lemma KernelBuilder_init_total:
  assumes "is_TensorBase (node_class_of env expr)"
    and "\<forall>op \<in> set (traverse_dags env [expr]). is_TensorOp (node_class_of env op) \<longrightarrow>
           collect_reference_count env [expr] op \<noteq> None"
  shows "\<exists>b. KernelBuilder_init env expr params = Inr b"
proof -
  obtain tmps tops where g: "generate_expr_data env expr = (tmps, tops)"
    by (cases "generate_expr_data env expr")
  have "tops = sort_key (count_operands env)
      (filter (\<lambda>t. is_TensorOp (node_class_of env t)) (traverse_dags env [expr]))"
    using g generate_loop_ops [of "node_class_of env" "traverse_dags env [expr]" "[]" "[]"]
    by (auto simp: generate_expr_data_def split: prod.splits)
  then have "\<forall>op \<in> set tops. collect_reference_count env [expr] op \<noteq> None"
    using assms(2) by auto
  from collect_aux_total [OF this, of "node_class_of env" "[]"] assms(1) g
  show ?thesis by (simp add: KernelBuilder_init_def)
qed

text \<open>
  C3. For a builder the constructor returns: every \<^verbatim>\<open>TensorOp\<close> node of the traversal
  has a reference count, and it is in \<^verbatim>\<open>aux_exprs\<close> if and only if that count exceeds 1
  or the node is an \<^verbatim>\<open>Action\<close>; the list holds no other node; its operand counts are
  non-decreasing; and the nodes of equal operand count stand in the order in which the
  traversal discovered them.
\<close>

theorem aux_exprs_characterised:
  assumes "KernelBuilder_init env expr params = Inr b"
  shows "(\<forall>op \<in> set (traverse_dags env [expr]). is_TensorOp (node_class_of env op) \<longrightarrow>
            (\<exists>c. collect_reference_count env [expr] op = Some c \<and>
                 (op \<in> set (aux_exprs b) \<longleftrightarrow> c > 1 \<or> is_Action (node_class_of env op)))) \<and>
         set (aux_exprs b) \<subseteq>
           {op. op \<in> set (traverse_dags env [expr]) \<and> is_TensorOp (node_class_of env op)} \<and>
         sorted (map (count_operands env) (aux_exprs b)) \<and>
         (\<forall>k. filter (\<lambda>op. count_operands env op = k) (aux_exprs b) =
              filter (\<lambda>op. count_operands env op = k)
                (filter (needs_aux (node_class_of env) (collect_reference_count env [expr]))
                  (filter (\<lambda>t. is_TensorOp (node_class_of env t)) (traverse_dags env [expr]))))"
proof -
  let ?cls = "node_class_of env" and ?rc = "collect_reference_count env [expr]"
  let ?trav = "traverse_dags env [expr]" and ?cnt = "count_operands env"
  let ?ops = "filter (\<lambda>t. is_TensorOp (?cls t)) ?trav"
  note init = KernelBuilder_init_Inr [OF assms]
  have aux: "aux_exprs b = filter (needs_aux ?cls ?rc) (sort_key ?cnt ?ops)" by (rule init(2))
  have known: "\<forall>op \<in> set ?trav. is_TensorOp (?cls op) \<longrightarrow> ?rc op \<noteq> None" by (rule init(3))
  have member: "\<exists>c. ?rc op = Some c \<and> (op \<in> set (aux_exprs b) \<longleftrightarrow> c > 1 \<or> is_Action (?cls op))"
    if "op \<in> set ?trav" and "is_TensorOp (?cls op)" for op
  proof -
    from known that obtain c where c: "?rc op = Some c" by auto
    have "op \<in> set (aux_exprs b) \<longleftrightarrow> c > 1 \<or> is_Action (?cls op)"
      using that c by (simp add: aux needs_aux_def)
    with c show ?thesis by blast
  qed
  have subset: "set (aux_exprs b) \<subseteq> {op. op \<in> set ?trav \<and> is_TensorOp (?cls op)}"
    by (auto simp: aux)
  have srt: "sorted (map ?cnt (aux_exprs b))"
    unfolding aux by (rule sorted_filter) (rule sorted_sort_key)
  have stable: "filter (\<lambda>op. ?cnt op = k) (aux_exprs b) =
      filter (\<lambda>op. ?cnt op = k) (filter (needs_aux ?cls ?rc) ?ops)" for k
  proof -
    have "filter (\<lambda>op. ?cnt op = k) (aux_exprs b) =
        filter (needs_aux ?cls ?rc) (filter (\<lambda>op. ?cnt op = k) (sort_key ?cnt ?ops))"
      unfolding aux by (rule filter_swap)
    also have "\<dots> = filter (needs_aux ?cls ?rc) (filter (\<lambda>op. ?cnt op = k) ?ops)"
      by (simp only: sort_key_stable)
    also have "\<dots> = filter (\<lambda>op. ?cnt op = k) (filter (needs_aux ?cls ?rc) ?ops)"
      by (rule filter_swap)
    finally show ?thesis .
  qed
  show ?thesis using member subset srt stable by blast
qed

theorem aux_exprs_characterised_witness:
  "KernelBuilder_init (example_env 0) 0 None = Inr (example_builder 0) \<and>
   aux_exprs (example_builder 0) = [1, 2] \<and>
   sorted (map (count_operands (example_env 0)) (aux_exprs (example_builder 0)))"
  using aux_exprs_characterised [OF example_KernelBuilder_init [of 0]]
  by (simp add: example_KernelBuilder_init) (simp add: example_builder_def)

section \<open>Two runs on graphs of the same shape\<close>

lemma rename_items_simps [simp]:
  "rename_items f [] = []"
  "rename_items f (tmps @ [(n, s)]) = rename_items f tmps @ [(f n, s)]"
  "length (rename_items f tmps) = length tmps"
  "map fst (rename_items f tmps) = map f (map fst tmps)"
  "map snd (rename_items f tmps) = map snd tmps"
  by (auto simp: rename_items_def split: prod.splits)

lemma generate_loop_rename:
  assumes "inj_on f N" and "set ts \<subseteq> N" and "fst ` set tmps \<subseteq> N"
    and "\<forall>n \<in> N. cls2 (f n) = cls1 n"
  shows "generate_loop cls2 (map f ts) (rename_items f tmps) (map f ops) =
           (rename_items f (fst (generate_loop cls1 ts tmps ops)),
            map f (snd (generate_loop cls1 ts tmps ops)))"
  using assms(2,3)
proof (induction ts arbitrary: tmps ops)
  case Nil
  show ?case by simp
next
  case (Cons t ts)
  have t: "t \<in> N" and ts: "set ts \<subseteq> N" using Cons.prems by auto
  have cls: "cls2 (f t) = cls1 t" using assms(4) t by simp
  have mem: "f t \<in> fst ` set (rename_items f tmps) \<longleftrightarrow> t \<in> fst ` set tmps"
  proof -
    have "fst ` set (rename_items f tmps) = f ` (fst ` set tmps)"
      by (force simp: rename_items_def)
    then show ?thesis
      using inj_on_image_mem_iff [OF assms(1) t Cons.prems(2)] by simp
  qed
  have sd: "setdefault (rename_items f tmps) (f t) s = rename_items f (setdefault tmps t s)" for s
    using mem by (simp add: setdefault_def)
  have sub: "fst ` set (setdefault tmps t s) \<subseteq> N" for s
    using Cons.prems(2) t by (auto simp: setdefault_def)
  show ?case
  proof (cases "is_Tensor (cls1 t)")
    case True
    then show ?thesis
      using cls sd Cons.IH [OF ts sub, of _ ops] by simp
  next
    case False
    then show ?thesis
      using cls Cons.IH [OF ts Cons.prems(2), of "ops @ [t]"] Cons.IH [OF ts Cons.prems(2), of ops]
      by simp
  qed
qed

lemma insort_key_rename:
  "k2 (f x) = k1 x \<Longrightarrow> \<forall>y \<in> set ys. k2 (f y) = k1 y \<Longrightarrow>
     insort_key k2 (f x) (map f ys) = map f (insort_key k1 x ys)"
  by (induction ys) auto

lemma sort_key_rename:
  "\<forall>x \<in> set xs. k2 (f x) = k1 x \<Longrightarrow> sort_key k2 (map f xs) = map f (sort_key k1 xs)"
proof (induction xs)
  case Nil
  show ?case by simp
next
  case (Cons x xs)
  then have "sort_key k2 (map f xs) = map f (sort_key k1 xs)" by simp
  moreover have "insort_key k2 (f x) (map f (sort_key k1 xs)) = map f (insort_key k1 x (sort_key k1 xs))"
    using Cons.prems by (intro insort_key_rename) auto
  ultimately show ?case by simp
qed

lemma collect_aux_rename:
  "\<forall>n \<in> set ops. cls2 (f n) = cls1 n \<and> rc2 (f n) = rc1 n \<Longrightarrow>
     collect_aux cls2 rc2 (map f ops) (map f aux) =
       map_sum (\<lambda>e. e) (map f) (collect_aux cls1 rc1 ops aux)"
proof (induction ops arbitrary: aux)
  case Nil
  show ?case by simp
next
  case (Cons op ops)
  then have IH: "collect_aux cls2 rc2 (map f ops) (map f a) =
       map_sum (\<lambda>e. e) (map f) (collect_aux cls1 rc1 ops a)" for a
    by simp
  from Cons.prems have op: "cls2 (f op) = cls1 op" "rc2 (f op) = rc1 op" by auto
  show ?case
    using op IH [of "aux @ [op]"] IH [of aux] by (simp split: option.splits)
qed


text \<open>
  C2. Two runs on graphs of the same shape built from independent nodes: \<open>f\<close> renames the
  nodes of the first graph into those of the second, one to one, and the collaborators
  (classes, traversal, operand counts, reference counts) agree along \<open>f\<close>. Then
  \<^verbatim>\<open>generate_expr_data\<close> returns in the second run the items and the operator list of the
  first with the nodes renamed, the sequences of symbols of the two temporaries maps are
  equal, and the constructor fails alike or returns the builder of the first run renamed:
  its \<^verbatim>\<open>aux_exprs\<close> is the image, position by position, of the first one's.
\<close>

theorem two_run_determinism:
  assumes "inj_on f N" and "expr \<in> N" and "set (traverse_dags env1 [expr]) \<subseteq> N"
    and "traverse_dags env2 [f expr] = map f (traverse_dags env1 [expr])"
    and "\<forall>n \<in> N. node_class_of env2 (f n) = node_class_of env1 n"
    and "\<forall>n \<in> N. count_operands env2 (f n) = count_operands env1 n"
    and "\<forall>n \<in> N. collect_reference_count env2 [f expr] (f n) = collect_reference_count env1 [expr] n"
  shows "generate_expr_data env2 (f expr) =
           (rename_items f (fst (generate_expr_data env1 expr)),
            map f (snd (generate_expr_data env1 expr))) \<and>
         map snd (fst (generate_expr_data env2 (f expr))) =
           map snd (fst (generate_expr_data env1 expr)) \<and>
         KernelBuilder_init env2 (f expr) params =
           map_sum (\<lambda>e. e) (rename_builder f) (KernelBuilder_init env1 expr params)"
proof -
  let ?c1 = "node_class_of env1" and ?c2 = "node_class_of env2"
  let ?t1 = "traverse_dags env1 [expr]"
  let ?k1 = "count_operands env1" and ?k2 = "count_operands env2"
  let ?r1 = "collect_reference_count env1 [expr]" and ?r2 = "collect_reference_count env2 [f expr]"
  obtain T1 O1 where loop1: "generate_loop ?c1 ?t1 [] [] = (T1, O1)"
    by (cases "generate_loop ?c1 ?t1 [] []")
  have loop2: "generate_loop ?c2 (map f ?t1) [] [] = (rename_items f T1, map f O1)"
    using generate_loop_rename [OF assms(1) assms(3) _ assms(5), of "[]" "[]"] loop1 by simp
  have O1: "set O1 \<subseteq> N"
    using generate_loop_ops [of ?c1 ?t1 "[]" "[]"] loop1 assms(3) by auto
  have sorted2: "sort_key ?k2 (map f O1) = map f (sort_key ?k1 O1)"
    using O1 assms(6) by (intro sort_key_rename) auto
  have g1: "generate_expr_data env1 expr = (T1, sort_key ?k1 O1)"
    by (simp add: generate_expr_data_def loop1)
  have g2: "generate_expr_data env2 (f expr) = (rename_items f T1, map f (sort_key ?k1 O1))"
    by (simp add: generate_expr_data_def assms(4) loop2 sorted2)
  have cls_expr: "?c2 (f expr) = ?c1 expr" using assms(2,5) by simp
  have "\<forall>n \<in> set (sort_key ?k1 O1). ?c2 (f n) = ?c1 n \<and> ?r2 (f n) = ?r1 n"
    using O1 assms(5,7) by auto
  then have aux2: "collect_aux ?c2 ?r2 (map f (sort_key ?k1 O1)) [] =
      map_sum (\<lambda>e. e) (map f) (collect_aux ?c1 ?r1 (sort_key ?k1 O1) [])"
    using collect_aux_rename [of "sort_key ?k1 O1" ?c2 f ?c1 ?r2 ?r1 "[]"] by simp
  have init: "KernelBuilder_init env2 (f expr) params =
      map_sum (\<lambda>e. e) (rename_builder f) (KernelBuilder_init env1 expr params)"
    by (cases "collect_aux ?c1 ?r1 (sort_key ?k1 O1) []")
       (simp_all add: KernelBuilder_init_def g1 g2 cls_expr aux2 rename_builder_def)
  show ?thesis using g1 g2 init by simp
qed

theorem two_run_determinism_witness:
  "generate_expr_data (example_env 10) 10 =
     (rename_items (\<lambda>n. n + 10) (fst (generate_expr_data (example_env 0) 0)),
      map (\<lambda>n. n + 10) (snd (generate_expr_data (example_env 0) 0))) \<and>
   map snd (fst (generate_expr_data (example_env 10) 10)) = [Symbol ''T0'', Symbol ''T1''] \<and>
   map snd (fst (generate_expr_data (example_env 0) 0)) = [Symbol ''T0'', Symbol ''T1''] \<and>
   KernelBuilder_init (example_env 10) 10 None = Inr (rename_builder (\<lambda>n. n + 10) (example_builder 0))"
proof -
  let ?f = "\<lambda>n::nat. n + 10" and ?N = "{0, 1, 2, 3, 4 :: nat}"
  have h1: "inj_on ?f ?N" by (simp add: inj_on_def)
  have h2: "(0::nat) \<in> ?N" by simp
  have h3: "set (traverse_dags (example_env 0) [0]) \<subseteq> ?N" by (simp add: example_env_def)
  have h4: "traverse_dags (example_env 10) [?f 0] = map ?f (traverse_dags (example_env 0) [0])"
    by (simp add: example_env_def)
  have h5: "\<forall>n \<in> ?N. node_class_of (example_env 10) (?f n) = node_class_of (example_env 0) n"
    by (simp add: example_env_def)
  have h6: "\<forall>n \<in> ?N. count_operands (example_env 10) (?f n) = count_operands (example_env 0) n"
    by (simp add: example_env_def)
  have h7: "\<forall>n \<in> ?N. collect_reference_count (example_env 10) [?f 0] (?f n) =
      collect_reference_count (example_env 0) [0] n"
    by (simp add: example_env_def)
  from two_run_determinism [OF h1 h2 h3 h4 h5 h6 h7, of None]
  show ?thesis
    by (simp add: example_KernelBuilder_init example_generate_expr_data)
qed

section \<open>The coefficient map\<close>













section \<open>\<^verbatim>\<open>_finalize_kernels_and_update\<close>\<close>

lemma finalize_loop_unsupported:
  "\<exists>sk \<in> set sks. kinfo_subdomain_id sk \<noteq> SubdomainStr ''otherwise'' \<Longrightarrow>
     finalize_loop visit orntd kernel_list sks =
       Inl (NotImplementedError ''Subdomains not implemented yet.'')"
  by (induction sks arbitrary: orntd kernel_list) (auto simp: Let_def)

lemma finalize_loop_supported:
  "\<forall>sk \<in> set sks. kinfo_subdomain_id sk = SubdomainStr ''otherwise'' \<Longrightarrow>
     finalize_loop visit orntd kernel_list sks =
       Inr (orntd \<or> (\<exists>sk \<in> set sks. kinfo_oriented sk),
            kernel_list @ map (\<lambda>sk. visit (kinfo_kernel_ast sk)) sks)"
  by (induction sks arbitrary: orntd kernel_list) (auto simp: Let_def)

lemma context_kernels_state:
  "context_kernels env b = (Inr cxt_kernels, b') \<Longrightarrow> b' = b\<lparr>context_kernels_cache := Some cxt_kernels\<rparr>"
  by (auto simp: context_kernels_def split: option.splits sum.splits)

lemma context_kernels_failure:
  "context_kernels env b = (Inl e, b') \<Longrightarrow> b' = b"
  by (auto simp: context_kernels_def split: option.splits sum.splits)

lemma context_kernels_cached:
  "context_kernels env b = (Inr cxt_kernels, b') \<Longrightarrow> context_kernels env b' = (Inr cxt_kernels, b')"
  by (auto simp: context_kernels_def split: option.splits sum.splits)

lemma context_kernels_hit:
  "context_kernels_cache b = Some cxt_kernels \<Longrightarrow> context_kernels env b = (Inr cxt_kernels, b)"
  by (simp add: context_kernels_def)

lemma finalize_idempotent:
  "finalize_kernels_and_update env (snd (finalize_kernels_and_update env b)) =
     finalize_kernels_and_update env b"
proof (cases "context_kernels env b")
  case (Pair r b')
  show ?thesis
  proof (cases r)
    case (Inl e)
    with Pair have "b' = b" by (auto dest: context_kernels_failure)
    with Pair Inl show ?thesis by (simp add: finalize_kernels_and_update_def)
  next
    case (Inr cxt_kernels)
    let ?sks = "concat (map tsfc_kernels cxt_kernels)"
    let ?visit = "transformer_visit env"
    have ck: "context_kernels env b = (Inr cxt_kernels, b')" using Pair Inr by simp
    have cache: "context_kernels_cache b' = Some cxt_kernels"
      using context_kernels_state [OF ck] by simp
    show ?thesis
    proof (cases "\<exists>sk \<in> set ?sks. kinfo_subdomain_id sk \<noteq> SubdomainStr ''otherwise''")
      case True
      have "finalize_kernels_and_update env b =
          (Inl (NotImplementedError ''Subdomains not implemented yet.''), b')"
        by (simp add: finalize_kernels_and_update_def ck finalize_loop_unsupported [OF True])
      moreover have "finalize_kernels_and_update env b' =
          (Inl (NotImplementedError ''Subdomains not implemented yet.''), b')"
        by (simp add: finalize_kernels_and_update_def context_kernels_hit [OF cache]
            finalize_loop_unsupported [OF True])
      ultimately show ?thesis by simp
    next
      case False
      then have ok: "\<forall>sk \<in> set ?sks. kinfo_subdomain_id sk = SubdomainStr ''otherwise''" by blast
      define o1 where "o1 = (oriented b \<or> (\<exists>sk \<in> set ?sks. kinfo_oriented sk))"
      define kl where "kl = map (\<lambda>sk. ?visit (kinfo_kernel_ast sk)) ?sks"
      define b1 where "b1 = b'\<lparr>oriented := o1, finalized_ast := Some kl, is_finalized := True\<rparr>"
      have loop: "finalize_loop ?visit (oriented b) [] ?sks = Inr (o1, kl)"
        using finalize_loop_supported [OF ok, of ?visit "oriented b" "[]"]
        by (simp add: o1_def kl_def)
      have loop1: "finalize_loop ?visit o1 [] ?sks = Inr (o1, kl)"
        using finalize_loop_supported [OF ok, of ?visit o1 "[]"]
        by (auto simp: o1_def kl_def)
      have first: "finalize_kernels_and_update env b = (Inr (), b1)"
        by (simp add: finalize_kernels_and_update_def ck loop b1_def)
      have cache1: "context_kernels_cache b1 = Some cxt_kernels" using cache by (simp add: b1_def)
      have o1: "oriented b1 = o1" by (simp add: b1_def)
      have same: "b1\<lparr>oriented := o1, finalized_ast := Some kl, is_finalized := True\<rparr> = b1"
        by (simp add: b1_def)
      have second: "finalize_kernels_and_update env b1 = (Inr (), b1)"
        by (simp add: finalize_kernels_and_update_def context_kernels_hit [OF cache1] o1 loop1 same)
      show ?thesis using first second by simp
    qed
  qed
qed

lemma example_context_kernels:
  "context_kernels (example_env 0) (example_builder 0) =
     (Inr [\<lparr>tsfc_kernels = [\<lparr>kinfo_oriented = False,
                               kinfo_subdomain_id = SubdomainStr ''otherwise'',
                               kinfo_kernel_ast = Generated 4\<rparr>],
             original_integral_type = ''cell''\<rparr>,
           \<lparr>tsfc_kernels = [\<lparr>kinfo_oriented = True,
                               kinfo_subdomain_id = SubdomainStr ''otherwise'',
                               kinfo_kernel_ast = Generated 3\<rparr>],
             original_integral_type = ''cell''\<rparr>],
      (example_builder 0)\<lparr>context_kernels_cache := Some
          [\<lparr>tsfc_kernels = [\<lparr>kinfo_oriented = False,
                               kinfo_subdomain_id = SubdomainStr ''otherwise'',
                               kinfo_kernel_ast = Generated 4\<rparr>],
             original_integral_type = ''cell''\<rparr>,
           \<lparr>tsfc_kernels = [\<lparr>kinfo_oriented = True,
                               kinfo_subdomain_id = SubdomainStr ''otherwise'',
                               kinfo_kernel_ast = Generated 3\<rparr>],
             original_integral_type = ''cell''\<rparr>]\<rparr>)"
  by (simp add: context_kernels_def example_builder_def example_env_def)

lemma example_finalize:
  "finalize_kernels_and_update (example_env 0) (example_builder 0) =
     (Inr (), (example_builder 0)\<lparr>context_kernels_cache := Some
          [\<lparr>tsfc_kernels = [\<lparr>kinfo_oriented = False,
                               kinfo_subdomain_id = SubdomainStr ''otherwise'',
                               kinfo_kernel_ast = Generated 4\<rparr>],
             original_integral_type = ''cell''\<rparr>,
           \<lparr>tsfc_kernels = [\<lparr>kinfo_oriented = True,
                               kinfo_subdomain_id = SubdomainStr ''otherwise'',
                               kinfo_kernel_ast = Generated 3\<rparr>],
             original_integral_type = ''cell''\<rparr>],
        oriented := True,
        finalized_ast := Some [Block [Generated 4], Block [Generated 3]],
        is_finalized := True\<rparr>)"
  by (simp add: finalize_kernels_and_update_def example_context_kernels)
     (simp add: example_env_def example_builder_def)

lemma example_context_kernels_subdomain:
  "context_kernels example_env_subdomain (example_builder 0) =
     (Inr [\<lparr>tsfc_kernels = [\<lparr>kinfo_oriented = True,
                               kinfo_subdomain_id = SubdomainInt 1,
                               kinfo_kernel_ast = Generated 4\<rparr>],
             original_integral_type = ''cell''\<rparr>,
           \<lparr>tsfc_kernels = [\<lparr>kinfo_oriented = True,
                               kinfo_subdomain_id = SubdomainInt 1,
                               kinfo_kernel_ast = Generated 3\<rparr>],
             original_integral_type = ''cell''\<rparr>],
      (example_builder 0)\<lparr>context_kernels_cache := Some
          [\<lparr>tsfc_kernels = [\<lparr>kinfo_oriented = True,
                               kinfo_subdomain_id = SubdomainInt 1,
                               kinfo_kernel_ast = Generated 4\<rparr>],
             original_integral_type = ''cell''\<rparr>,
           \<lparr>tsfc_kernels = [\<lparr>kinfo_oriented = True,
                               kinfo_subdomain_id = SubdomainInt 1,
                               kinfo_kernel_ast = Generated 3\<rparr>],
             original_integral_type = ''cell''\<rparr>]\<rparr>)"
  by (simp add: context_kernels_def example_builder_def example_env_subdomain_def example_env_def)

text \<open>
  C4. When a subkernel of the context kernels reports a subdomain identifier other than
  \<^verbatim>\<open>"otherwise"\<close>, \<^verbatim>\<open>_finalize_kernels_and_update\<close> raises \<^verbatim>\<open>NotImplementedError\<close>
  and the builder keeps the values it had of \<^verbatim>\<open>finalized_ast\<close>, \<^verbatim>\<open>_is_finalized\<close> and
  \<^verbatim>\<open>oriented\<close> (\<open>None\<close>, \<open>False\<close> and the prior flag on a builder not yet finalized):
  nothing but the slot of the cached property \<^verbatim>\<open>context_kernels\<close> can differ.
\<close>

theorem finalize_rejects_subdomain:
  assumes "context_kernels env b = (Inr cxt_kernels, b')"
    and "sk \<in> set (concat (map tsfc_kernels cxt_kernels))"
    and "kinfo_subdomain_id sk \<noteq> SubdomainStr ''otherwise''"
  shows "finalize_kernels_and_update env b =
           (Inl (NotImplementedError ''Subdomains not implemented yet.''), b') \<and>
         b' = b\<lparr>context_kernels_cache := Some cxt_kernels\<rparr> \<and>
         finalized_ast b' = finalized_ast b \<and>
         is_finalized b' = is_finalized b \<and>
         oriented b' = oriented b"
proof -
  have bad: "\<exists>sk \<in> set (concat (map tsfc_kernels cxt_kernels)).
      kinfo_subdomain_id sk \<noteq> SubdomainStr ''otherwise''"
    using assms(2,3) by blast
  have fails: "finalize_kernels_and_update env b =
      (Inl (NotImplementedError ''Subdomains not implemented yet.''), b')"
    by (simp add: finalize_kernels_and_update_def assms(1) finalize_loop_unsupported [OF bad])
  have b': "b' = b\<lparr>context_kernels_cache := Some cxt_kernels\<rparr>"
    by (rule context_kernels_state [OF assms(1)])
  show ?thesis using fails b' by simp
qed

theorem finalize_rejects_subdomain_witness:
  "fst (finalize_kernels_and_update example_env_subdomain (example_builder 0)) =
     Inl (NotImplementedError ''Subdomains not implemented yet.'') \<and>
   finalized_ast (snd (finalize_kernels_and_update example_env_subdomain (example_builder 0))) = None \<and>
   is_finalized (snd (finalize_kernels_and_update example_env_subdomain (example_builder 0))) = False \<and>
   oriented (snd (finalize_kernels_and_update example_env_subdomain (example_builder 0))) = False"
proof -
  let ?sk = "\<lparr>kinfo_oriented = True, kinfo_subdomain_id = SubdomainInt 1,
              kinfo_kernel_ast = Generated 4\<rparr>"
  have bad: "kinfo_subdomain_id ?sk \<noteq> SubdomainStr ''otherwise''" by simp
  from finalize_rejects_subdomain [OF example_context_kernels_subdomain _ bad]
  show ?thesis by (simp add: example_builder_def)
qed

text \<open>
  C6. A second call of \<^verbatim>\<open>_finalize_kernels_and_update\<close> leaves the builder as the first
  call left it: \<^verbatim>\<open>finalized_ast\<close> has the same content, with no entry duplicated, and
  \<^verbatim>\<open>oriented\<close> the same value; the second call also ends as the first did.
\<close>

theorem finalize_twice_same:
  "finalized_ast (snd (finalize_kernels_and_update env (snd (finalize_kernels_and_update env b)))) =
     finalized_ast (snd (finalize_kernels_and_update env b)) \<and>
   oriented (snd (finalize_kernels_and_update env (snd (finalize_kernels_and_update env b)))) =
     oriented (snd (finalize_kernels_and_update env b)) \<and>
   finalize_kernels_and_update env (snd (finalize_kernels_and_update env b)) =
     finalize_kernels_and_update env b"
  by (simp add: finalize_idempotent)

theorem finalize_twice_same_witness:
  "finalized_ast (snd (finalize_kernels_and_update (example_env 0)
      (snd (finalize_kernels_and_update (example_env 0) (example_builder 0))))) =
     Some [Block [Generated 4], Block [Generated 3]] \<and>
   oriented (snd (finalize_kernels_and_update (example_env 0)
      (snd (finalize_kernels_and_update (example_env 0) (example_builder 0))))) = True \<and>
   finalized_ast (snd (finalize_kernels_and_update (example_env 0) (example_builder 0))) =
     Some [Block [Generated 4], Block [Generated 3]]"
  using finalize_twice_same [of "example_env 0" "example_builder 0"]
  by (simp add: example_finalize)

section \<open>What the operations leave untouched\<close>

lemma coefficient_map_frame:
  "temps (snd (coefficient_map env b)) = temps b \<and>
   aux_exprs (snd (coefficient_map env b)) = aux_exprs b"
  by (simp add: coefficient_map_def Let_def split: option.splits)

lemma coefficient_of_frame:
  "temps (snd (coefficient_of env b c)) = temps b \<and>
   aux_exprs (snd (coefficient_of env b c)) = aux_exprs b"
  using coefficient_map_frame [of env b]
  by (cases "coefficient_map env b") (simp add: coefficient_of_def split: option.splits)

lemma context_kernels_frame:
  "temps (snd (context_kernels env b)) = temps b \<and>
   aux_exprs (snd (context_kernels env b)) = aux_exprs b"
  by (simp add: context_kernels_def split: option.splits sum.splits)

lemma finalize_frame:
  "temps (snd (finalize_kernels_and_update env b)) = temps b \<and>
   aux_exprs (snd (finalize_kernels_and_update env b)) = aux_exprs b"
  using context_kernels_frame [of env b]
  by (cases "context_kernels env b")
     (auto simp: finalize_kernels_and_update_def split: sum.splits prod.splits)

lemma construct_ast_frame:
  "temps (snd (construct_ast b macro_kernels)) = temps b \<and>
   aux_exprs (snd (construct_ast b macro_kernels)) = aux_exprs b"
  by (simp add: construct_ast_def split: py_value.splits option.splits)

lemma call_frame:
  "temps (call env b c) = temps b \<and> aux_exprs (call env b c) = aux_exprs b"
  by (cases c)
     (simp_all add: require_cell_facets_def require_mesh_layers_def coefficient_map_frame
        coefficient_of_frame context_kernels_frame finalize_frame construct_ast_frame)

text \<open>
  C10. Whatever sequence of the public operations is called on a builder
  (\<^verbatim>\<open>require_cell_facets\<close>, \<^verbatim>\<open>require_mesh_layers\<close>, \<^verbatim>\<open>coefficient_map\<close>,
  \<^verbatim>\<open>coefficient\<close>, \<^verbatim>\<open>context_kernels\<close>, \<^verbatim>\<open>integral_type\<close>,
  \<^verbatim>\<open>construct_macro_kernel\<close>, \<^verbatim>\<open>_finalize_kernels_and_update\<close>, \<^verbatim>\<open>construct_ast\<close>),
  and whether the calls return or raise, \<^verbatim>\<open>temps\<close> and \<^verbatim>\<open>aux_exprs\<close> keep the content
  and the order they had.
\<close>

theorem temps_and_aux_exprs_fixed:
  "temps (calls env b cs) = temps b \<and> aux_exprs (calls env b cs) = aux_exprs b"
  by (induction cs arbitrary: b) (simp_all add: call_frame)

theorem temps_and_aux_exprs_fixed_witness:
  "temps (calls (example_env 0) (example_builder 0)
      [Require_cell_facets, Coefficient_map, Finalize, Construct_ast (PyList [Generated 9])]) =
     [(4, Symbol ''T0''), (3, Symbol ''T1'')] \<and>
   aux_exprs (calls (example_env 0) (example_builder 0)
      [Require_cell_facets, Coefficient_map, Finalize, Construct_ast (PyList [Generated 9])]) =
     [1, 2]"
  using temps_and_aux_exprs_fixed [of "example_env 0" "example_builder 0"
      "[Require_cell_facets, Coefficient_map, Finalize, Construct_ast (PyList [Generated 9])]"]
  by (simp add: example_builder_def)

section \<open>Halo exchange on one rank\<close>

text \<open>
  C8 (as the claim states it, refuted). On a communicator of size 1,
  \<^verbatim>\<open>global_to_local_begin\<close> called with the insert mode \<^verbatim>\<open>INC\<close> does not return: its
  assertion, which precedes the test of the size, fails.
\<close>

theorem halo_noop_every_mode_counterexample:
  "comm_size serial_halo = 1 \<and>
   fst (global_to_local_begin serial_halo serial_state INC) =
     Inl (AssertionError ''Only WRITE GtoL supported'')"
  by (simp add: global_to_local_begin_def serial_halo_def)

text \<open>
  C8 (amended). On a communicator of size 1, each of the four halo operations called with
  the one insert mode it supports (\<^verbatim>\<open>WRITE\<close> for global-to-local, \<^verbatim>\<open>INC\<close> for
  local-to-global) returns and leaves the array, the caches and the record of
  communications as they were; called with any other mode it fails its assertion, and
  leaves them as they were all the same.
\<close>

theorem halo_noop_on_one_rank:
  assumes "comm_size env = 1"
  shows "global_to_local_begin env s mode =
           (if mode = WRITE then Inr () else Inl (AssertionError ''Only WRITE GtoL supported''), s) \<and>
         global_to_local_end env s mode =
           (if mode = WRITE then Inr () else Inl (AssertionError ''Only WRITE GtoL supported''), s) \<and>
         local_to_global_begin env s mode =
           (if mode = INC then Inr () else Inl (AssertionError ''Only INC LtoG supported''), s) \<and>
         local_to_global_end env s mode =
           (if mode = INC then Inr () else Inl (AssertionError ''Only INC LtoG supported''), s)"
  using assms
  by (simp add: global_to_local_begin_def global_to_local_end_def
      local_to_global_begin_def local_to_global_end_def)

theorem halo_noop_on_one_rank_witness:
  "global_to_local_begin serial_halo serial_state WRITE = (Inr (), serial_state) \<and>
   global_to_local_end serial_halo serial_state WRITE = (Inr (), serial_state) \<and>
   local_to_global_begin serial_halo serial_state INC = (Inr (), serial_state) \<and>
   local_to_global_end serial_halo serial_state INC = (Inr (), serial_state)"
proof -
  have one: "comm_size serial_halo = 1" by (simp add: serial_halo_def)
  show ?thesis
    using halo_noop_on_one_rank [OF one, of serial_state WRITE]
      halo_noop_on_one_rank [OF one, of serial_state INC]
    by simp
qed

end
